theory Spec2Isabelle
  imports Complex_Main "HOL-Library.AList" "HOL-Library.List_Lexorder"
begin

section \<open>The response cache of the chat front-end (app.py)\<close>

text \<open>
  The development embeds the caching core of \<^verbatim>\<open>app.py\<close>: the persisted cache store
  (\<^verbatim>\<open>load_cache_from_file\<close>, \<^verbatim>\<open>save_cache_to_file\<close>, \<^verbatim>\<open>cleanup_expired_cache\<close>,
  \<^verbatim>\<open>get_cached_response\<close>, \<^verbatim>\<open>set_cached_response\<close>), the key derivation
  \<^verbatim>\<open>get_cache_key\<close>, the diagnostic loop of \<^verbatim>\<open>show_cache_info\<close> and the client method
  \<^verbatim>\<open>ConversationalChatClient.send_chat_message\<close>.

  Conventions of the embedding:
  \<^item> a Python \<^verbatim>\<open>str\<close> is the list of its code points (\<open>pystr\<close>); the output of
    \<^verbatim>\<open>json.dumps\<close> and a file path are ASCII and of type \<open>string\<close>;
  \<^item> a decoded JSON value is a \<open>jvalue\<close>, with \<open>JNull\<close> for \<^verbatim>\<open>None\<close>; JSON floats
    are left out; an object is an association list in insertion order, as Python
    dictionaries iterate;
  \<^item> a reading of \<^verbatim>\<open>time.time()\<close> is a parameter of type \<open>real\<close>. Two readings taken
    within the same binade of a double subtract exactly, so the comparison with
    \<^verbatim>\<open>CACHE_DURATION\<close> is the one over the reals;
  \<^item> the module-level global \<^verbatim>\<open>api_cache\<close>, the files on disk and the list of POST
    requests sent so far form the record \<open>world\<close>, passed in and returned;
  \<^item> an exception of the class \<^verbatim>\<open>Exception\<close> is a value of type \<open>exn\<close>; a computation
    that may raise returns a sum, with \<open>Inl\<close> for what is raised. \<^verbatim>\<open>KeyboardInterrupt\<close>
    and other asynchronous interruptions are outside the model; an exception that is not
    an \<^verbatim>\<open>Exception\<close> is modelled where the data decides it, in unpickling;
  \<^item> writes of the \<^verbatim>\<open>logging\<close> module are not part of the model.
\<close>

subsection \<open>Data\<close>

type_synonym pystr = "nat list"

definition py_str :: "string \<Rightarrow> pystr" where
  "py_str s = map of_char s"

datatype jvalue =
    JNull
  | JBool bool
  | JInt int
  | JString pystr
  | JArray "jvalue list"
  | JObject "(pystr \<times> jvalue) list"

type_synonym dict = "(pystr \<times> jvalue) list"

text \<open>\<^verbatim>\<open>isinstance(v, dict)\<close>.\<close>

definition is_dict :: "jvalue \<Rightarrow> bool" where
  "is_dict v = (case v of JObject kvs \<Rightarrow> True | _ \<Rightarrow> False)"

text \<open>
  The class \<^verbatim>\<open>Exception\<close>, split the way the handlers of the source split it:
  \<^verbatim>\<open>requests.exceptions.RequestException\<close> and its subclasses, and every other
  subclass of \<^verbatim>\<open>Exception\<close>. The argument is \<^verbatim>\<open>str(e)\<close>.
\<close>

datatype exn = RequestException pystr | Exception pystr

text \<open>
  What unpickling can raise: an \<^verbatim>\<open>Exception\<close>, or an exception outside that class
  (\<^verbatim>\<open>SystemExit\<close> from a callable that the pickle names), which no
  \<^verbatim>\<open>except Exception\<close> catches.
\<close>

datatype raised = Raised exn | RaisedBase pystr

text \<open>
  A cache entry: the dictionary \<^verbatim>\<open>{"response": ..., "timestamp": ...}\<close>. The response
  is whatever \<^verbatim>\<open>response.json()\<close> returned.
\<close>

record cached_item =
  response :: jvalue
  timestamp :: real

type_synonym cache = "(pystr \<times> cached_item) list"

text \<open>
  An unpickled object: a dictionary of cache entries; any other object that has a
  length (a list, a string, a dictionary of values without a timestamp), with that
  length; or an object without a length.
\<close>

datatype pyobj = PyCache cache | PySized nat | PyUnsized

definition py_len :: "pyobj \<Rightarrow> exn + nat" where
  "py_len obj =
     (case obj of
        PyCache c \<Rightarrow> Inr (length c)
      | PySized n \<Rightarrow> Inr n
      | PyUnsized \<Rightarrow> Inl (Exception (py_str ''object has no len()'')))"

text \<open>
  What a file holds: the pickle of an object, the JSON dump of a cache, the empty or
  partial content left by \<^verbatim>\<open>open(..., 'w')\<close> and a dump that did not complete, or bytes
  on which \<^verbatim>\<open>pickle.load\<close> raises.
\<close>

datatype blob = Pickle pyobj | JsonDump cache | Partial | Unpicklable raised

text \<open>
  The file system: the files that exist; the paths on which \<^verbatim>\<open>open\<close> raises
  \<^verbatim>\<open>OSError\<close> (no permission, a directory in the way); and, for a store and a path,
  the exception that \<^verbatim>\<open>pickle.dump\<close> or \<^verbatim>\<open>json.dump\<close> raises while writing that store
  to the opened file (\<^verbatim>\<open>RecursionError\<close> on a deeply nested response, \<^verbatim>\<open>OSError\<close> on a
  full disk), \<open>None\<close> when the dump completes.
\<close>

record filesystem =
  files :: "string \<rightharpoonup> blob"
  denied :: "string set"
  dump_raises :: "cache \<Rightarrow> string \<Rightarrow> exn option"

definition CACHE_DURATION :: real where
  "CACHE_DURATION = 3600"

definition CACHE_FILE :: string where
  "CACHE_FILE = ''cache/api_cache.pkl''"

definition TEST_FILE :: string where
  "TEST_FILE = ''test_reponse.json''"

subsection \<open>Library calls\<close>

definition pickle_load :: "blob \<Rightarrow> raised + pyobj" where
  "pickle_load b =
     (case b of
        Pickle obj \<Rightarrow> Inr obj
      | JsonDump c \<Rightarrow> Inl (Raised (Exception (py_str ''invalid load key'')))
      | Partial \<Rightarrow> Inl (Raised (Exception (py_str ''Ran out of input'')))
      | Unpicklable r \<Rightarrow> Inl r)"

definition open_read :: "string \<Rightarrow> filesystem \<Rightarrow> exn + blob" where
  "open_read path fs =
     (if path \<in> denied fs then Inl (Exception (py_str ''Permission denied''))
      else case files fs path of
             None \<Rightarrow> Inl (Exception (py_str ''No such file or directory''))
           | Some b \<Rightarrow> Inr b)"

text \<open>Opening for writing truncates the file.\<close>

definition open_write :: "string \<Rightarrow> filesystem \<Rightarrow> exn + filesystem" where
  "open_write path fs =
     (if path \<in> denied fs then Inl (Exception (py_str ''Permission denied''))
      else Inr (fs\<lparr>files := (files fs)(path \<mapsto> Partial)\<rparr>))"

subsection \<open>Loading and saving\<close>

text \<open>
  The body of the \<^verbatim>\<open>try\<close> of \<^verbatim>\<open>load_cache_from_file\<close>: \<open>Inr (Some obj)\<close> is
  \<^verbatim>\<open>return cache_data\<close>, \<open>Inr None\<close> is leaving the \<^verbatim>\<open>if\<close> without a return. The log
  line before the return evaluates \<^verbatim>\<open>len(cache_data)\<close>.
\<close>

definition load_cache_from_file_try :: "filesystem \<Rightarrow> raised + pyobj option" where
  "load_cache_from_file_try fs =
     (if files fs CACHE_FILE \<noteq> None then
        (case open_read CACHE_FILE fs of
           Inl e \<Rightarrow> Inl (Raised e)
         | Inr b \<Rightarrow>
             (case pickle_load b of
                Inl r \<Rightarrow> Inl r
              | Inr cache_data \<Rightarrow>
                  (case py_len cache_data of
                     Inl e \<Rightarrow> Inl (Raised e)
                   | Inr n \<Rightarrow> Inr (Some cache_data))))
      else Inr None)"

text \<open>
  \<^verbatim>\<open>except Exception\<close> logs and falls through to \<^verbatim>\<open>return {}\<close>; what is not an
  \<^verbatim>\<open>Exception\<close> leaves the function.
\<close>

definition load_cache_from_file :: "filesystem \<Rightarrow> raised + pyobj" where
  "load_cache_from_file fs =
     (case load_cache_from_file_try fs of
        Inr (Some cache_data) \<Rightarrow> Inr cache_data
      | Inr None \<Rightarrow> Inr (PyCache [])
      | Inl (Raised e) \<Rightarrow> Inr (PyCache [])
      | Inl (RaisedBase s) \<Rightarrow> Inl (RaisedBase s))"

text \<open>
  \<^verbatim>\<open>save_cache_to_file\<close>: the pickle goes to \<^verbatim>\<open>CACHE_FILE\<close>, then the JSON dump to
  \<^verbatim>\<open>test_reponse.json\<close>. An exception at an \<^verbatim>\<open>open\<close> or during a dump ends the
  function there (logged, not raised); a dump that raises leaves its file as the
  \<^verbatim>\<open>open\<close> and the writes so far left it.
\<close>

definition save_cache_to_file :: "cache \<Rightarrow> filesystem \<Rightarrow> filesystem" where
  "save_cache_to_file cache_data fs =
     (case open_write CACHE_FILE fs of
        Inl e \<Rightarrow> fs
      | Inr fs1 \<Rightarrow>
          (case dump_raises fs cache_data CACHE_FILE of
             Some e \<Rightarrow> fs1
           | None \<Rightarrow>
               (let fs2 = fs1\<lparr>files := (files fs1)(CACHE_FILE \<mapsto> Pickle (PyCache cache_data))\<rparr>
                in case open_write TEST_FILE fs2 of
                     Inl e \<Rightarrow> fs2
                   | Inr fs3 \<Rightarrow>
                       (case dump_raises fs cache_data TEST_FILE of
                          Some e \<Rightarrow> fs3
                        | None \<Rightarrow>
                            fs3\<lparr>files := (files fs3)(TEST_FILE \<mapsto> JsonDump cache_data)\<rparr>))))"

subsection \<open>Pruning\<close>

text \<open>The \<^verbatim>\<open>for\<close> loop of \<^verbatim>\<open>cleanup_expired_cache\<close> over \<^verbatim>\<open>cache_data.items()\<close>.\<close>

fun cleanup_loop :: "real \<Rightarrow> cache \<Rightarrow> cache \<times> nat \<Rightarrow> cache \<times> nat" where
  "cleanup_loop current_time [] acc = acc"
| "cleanup_loop current_time ((cache_key, item) # rest) (cleaned_cache, expired_count) =
     (if current_time - timestamp item < CACHE_DURATION
      then cleanup_loop current_time rest
             (AList.update cache_key item cleaned_cache, expired_count)
      else cleanup_loop current_time rest (cleaned_cache, expired_count + 1))"

definition cleanup_expired_cache :: "real \<Rightarrow> cache \<Rightarrow> filesystem \<Rightarrow> cache \<times> filesystem" where
  "cleanup_expired_cache current_time cache_data fs =
     (case cleanup_loop current_time cache_data ([], 0) of
        (cleaned_cache, expired_count) \<Rightarrow>
          (cleaned_cache,
           if expired_count > 0 then save_cache_to_file cleaned_cache fs else fs))"

subsection \<open>The process state and the store operations\<close>

record chat_request =
  req_messages :: "dict list"
  req_session_id :: "pystr option"
  req_model :: pystr

record world =
  api_cache :: cache
  disk :: filesystem
  posted :: "chat_request list"

text \<open>
  Module initialisation: \<^verbatim>\<open>api_cache = load_cache_from_file()\<close>, then
  \<^verbatim>\<open>api_cache = cleanup_expired_cache(api_cache)\<close>, outside any \<^verbatim>\<open>try\<close>. On an object
  that is not a dictionary of cache entries the loop raises (no \<^verbatim>\<open>items()\<close>, or a
  value without a \<^verbatim>\<open>timestamp\<close>).
\<close>

definition startup :: "real \<Rightarrow> filesystem \<Rightarrow> raised + world" where
  "startup current_time fs =
     (case load_cache_from_file fs of
        Inl r \<Rightarrow> Inl r
      | Inr (PyCache loaded) \<Rightarrow>
          (case cleanup_expired_cache current_time loaded fs of
             (cleaned, fs') \<Rightarrow> Inr \<lparr>api_cache = cleaned, disk = fs', posted = []\<rparr>)
      | Inr (PySized n) \<Rightarrow> Inl (Raised (Exception (py_str ''not a cache'')))
      | Inr PyUnsized \<Rightarrow> Inl (Raised (Exception (py_str ''not a cache''))))"

text \<open>
  \<^verbatim>\<open>get_cached_response\<close>; \<open>now\<close> is the reading of \<^verbatim>\<open>time.time()\<close>. The result
  \<open>Some v\<close> is \<^verbatim>\<open>return cached_data["response"]\<close> and \<open>None\<close> is the final
  \<^verbatim>\<open>return None\<close>; the value the caller receives is \<open>py_optional\<close> of it, in which a
  stored \<^verbatim>\<open>None\<close> and an absent entry are the same.
\<close>

definition get_cached_response :: "pystr \<Rightarrow> real \<Rightarrow> world \<Rightarrow> jvalue option \<times> world" where
  "get_cached_response cache_key now w =
     (case map_of (api_cache w) cache_key of
        Some cached_data \<Rightarrow>
          if now - timestamp cached_data < CACHE_DURATION
          then (Some (response cached_data), w)
          else
            (let c = AList.delete cache_key (api_cache w)
             in (None, w\<lparr>api_cache := c, disk := save_cache_to_file c (disk w)\<rparr>))
      | None \<Rightarrow> (None, w))"

definition py_optional :: "jvalue option \<Rightarrow> jvalue" where
  "py_optional r = (case r of None \<Rightarrow> JNull | Some v \<Rightarrow> v)"

definition set_cached_response :: "pystr \<Rightarrow> jvalue \<Rightarrow> real \<Rightarrow> world \<Rightarrow> world" where
  "set_cached_response cache_key resp now w =
     (let c = AList.update cache_key \<lparr>response = resp, timestamp = now\<rparr> (api_cache w)
      in w\<lparr>api_cache := c, disk := save_cache_to_file c (disk w)\<rparr>)"

text \<open>
  The loop of \<^verbatim>\<open>show_cache_info\<close>; the snapshot holds the three counts of the report
  (the size of the file in megabytes, a float, is left out). Nothing is mutated.
\<close>

record cache_info =
  cache_count :: nat
  active_entries :: nat
  expired_entries :: nat

fun count_loop :: "real \<Rightarrow> cache \<Rightarrow> nat \<times> nat \<Rightarrow> nat \<times> nat" where
  "count_loop current_time [] acc = acc"
| "count_loop current_time ((cache_key, item) # rest) (active, expired) =
     (if current_time - timestamp item < CACHE_DURATION
      then count_loop current_time rest (active + 1, expired)
      else count_loop current_time rest (active, expired + 1))"

definition show_cache_info :: "real \<Rightarrow> world \<Rightarrow> cache_info" where
  "show_cache_info current_time w =
     (if length (api_cache w) = 0
      then \<lparr>cache_count = 0, active_entries = 0, expired_entries = 0\<rparr>
      else
        (case count_loop current_time (api_cache w) (0, 0) of
           (active, expired) \<Rightarrow>
             \<lparr>cache_count = length (api_cache w), active_entries = active,
              expired_entries = expired\<rparr>))"

subsection \<open>The cache key\<close>

text \<open>
  \<^verbatim>\<open>json.dumps(cache_data, sort_keys=True)\<close> with the defaults of the library: the
  separators \<^verbatim>\<open>", "\<close> and \<^verbatim>\<open>": "\<close>, and \<^verbatim>\<open>ensure_ascii\<close>. Under it a printable
  ASCII character other than the quote and the backslash is written as it is; the
  quote, the backslash and five control characters have two-character escapes; any
  other code point below \<open>0x10000\<close> is written \<^verbatim>\<open>\uXXXX\<close> with four lower-case hex
  digits, and a code point from \<open>0x10000\<close> on as the two escapes of its surrogate pair
  (\<^verbatim>\<open>0xd800 | ((n >> 10) & 0x3ff)\<close> and \<^verbatim>\<open>0xdc00 | (n & 0x3ff)\<close> for
  \<open>n\<close> the code point less \<open>0x10000\<close>, written here with \<open>div\<close> and \<open>mod\<close>).
\<close>

definition digit_char :: "nat \<Rightarrow> char" where
  "digit_char d = ''0123456789'' ! d"

fun str_nat :: "nat \<Rightarrow> string" where
  "str_nat n =
     (if n < 10 then [digit_char n] else str_nat (n div 10) @ [digit_char (n mod 10)])"

declare str_nat.simps [simp del]

definition str_int :: "int \<Rightarrow> string" where
  "str_int i = (if i < 0 then CHR ''-'' # str_nat (nat (- i)) else str_nat (nat i))"

definition hex_digit :: "nat \<Rightarrow> char" where
  "hex_digit d = ''0123456789abcdef'' ! d"

definition hex2 :: "nat \<Rightarrow> string" where
  "hex2 n = [hex_digit (n div 16), hex_digit (n mod 16)]"

definition hex4 :: "nat \<Rightarrow> string" where
  "hex4 n = hex2 (n div 256) @ hex2 (n mod 256)"

definition escape_char :: "nat \<Rightarrow> string" where
  "escape_char n =
     (if n = 0x22 then [CHR 0x5C, CHR 0x22]
      else if n = 0x5C then [CHR 0x5C, CHR 0x5C]
      else if n = 8 then [CHR 0x5C, CHR ''b'']
      else if n = 12 then [CHR 0x5C, CHR ''f'']
      else if n = 10 then [CHR 0x5C, CHR ''n'']
      else if n = 13 then [CHR 0x5C, CHR ''r'']
      else if n = 9 then [CHR 0x5C, CHR ''t'']
      else if 32 \<le> n \<and> n \<le> 126 then [char_of n]
      else if n < 0x10000 then [CHR 0x5C, CHR ''u''] @ hex4 n
      else [CHR 0x5C, CHR ''u''] @ hex4 (0xD800 + (n - 0x10000) div 1024 mod 1024)
           @ [CHR 0x5C, CHR ''u''] @ hex4 (0xDC00 + (n - 0x10000) mod 1024))"

definition encode_string :: "pystr \<Rightarrow> string" where
  "encode_string s = CHR 0x22 # concat (map escape_char s) @ [CHR 0x22]"

fun join :: "string \<Rightarrow> string list \<Rightarrow> string" where
  "join sep [] = []"
| "join sep [x] = x"
| "join sep (x # y # ys) = x @ sep @ join sep (y # ys)"

fun json_dumps :: "jvalue \<Rightarrow> string" where
  "json_dumps JNull = ''null''"
| "json_dumps (JBool b) = (if b then ''true'' else ''false'')"
| "json_dumps (JInt i) = str_int i"
| "json_dumps (JString s) = encode_string s"
| "json_dumps (JArray vs) = ''['' @ join '', '' (map json_dumps vs) @ '']''"
| "json_dumps (JObject kvs) =
     ''{'' @ join '', '' (map (\<lambda>(k, v). encode_string k @ '': '' @ json_dumps v)
                             (sort_key fst kvs)) @ ''}''"



text \<open>
  \<^verbatim>\<open>get_cache_key\<close>. The digest \<^verbatim>\<open>hashlib.md5(...).hexdigest()\<close> is a parameter; the
  canonical string is ASCII, so \<^verbatim>\<open>encode()\<close> leaves its characters as they are. The
  parameter \<open>session_id\<close> is received and not used.
\<close>

definition cache_string :: "dict list \<Rightarrow> pystr \<Rightarrow> string" where
  "cache_string msgs mdl =
     json_dumps (JObject [(py_str ''messages'', JArray (map JObject msgs)),
                          (py_str ''model'', JString mdl)])"

definition get_cache_key ::
  "(string \<Rightarrow> pystr) \<Rightarrow> dict list \<Rightarrow> pystr option \<Rightarrow> pystr \<Rightarrow> pystr" where
  "get_cache_key md5_hexdigest msgs session_id mdl = md5_hexdigest (cache_string msgs mdl)"

subsection \<open>The chat client\<close>

text \<open>
  What \<^verbatim>\<open>requests.post\<close> returns: the status, the raw body and the outcome of
  \<^verbatim>\<open>response.json()\<close> (the decoded value, of any JSON type, or the exception of the
  decoder).
\<close>

record http_response =
  status_code :: int
  text_body :: pystr
  json_body :: "exn + jvalue"

definition error_result :: "pystr \<Rightarrow> jvalue" where
  "error_result msg =
     JObject [(py_str ''error'', JString msg), (py_str ''status'', JString (py_str ''error''))]"

text \<open>
  The body of the \<^verbatim>\<open>try\<close> of \<^verbatim>\<open>send_chat_message\<close>. The remote endpoint is the
  function \<open>requests_post\<close>; \<open>now_get\<close> and \<open>now_set\<close> are the readings of the clock in
  \<^verbatim>\<open>get_cached_response\<close> and in \<^verbatim>\<open>set_cached_response\<close>. Every call of
  \<^verbatim>\<open>requests.post\<close> is appended to \<open>posted\<close>. The test
  \<^verbatim>\<open>if cached_response is not None\<close> is on the value received, so a stored \<^verbatim>\<open>None\<close>
  goes on to the network. The line
  \<^verbatim>\<open>logger.debug(f"response: {response.json()}")\<close> decodes the body before the status is
  looked at, so a body that does not decode raises there, whatever the status.
\<close>

definition send_chat_message_try ::
  "(string \<Rightarrow> pystr) \<Rightarrow> (chat_request \<Rightarrow> exn + http_response) \<Rightarrow> real \<Rightarrow> real \<Rightarrow>
   dict list \<Rightarrow> pystr option \<Rightarrow> pystr \<Rightarrow> world \<Rightarrow> (exn + jvalue) \<times> world" where
  "send_chat_message_try md5_hexdigest requests_post now_get now_set msgs session_id mdl w =
     (let payload = \<lparr>req_messages = msgs, req_session_id = session_id, req_model = mdl\<rparr>;
          cache_key = get_cache_key md5_hexdigest msgs session_id mdl
      in case get_cached_response cache_key now_get w of
           (returned, w1) \<Rightarrow>
             (let cached_response = py_optional returned
              in if cached_response \<noteq> JNull then (Inr cached_response, w1)
                 else
                   (let w2 = w1\<lparr>posted := posted w1 @ [payload]\<rparr>
                    in case requests_post payload of
                         Inl e \<Rightarrow> (Inl e, w2)
                       | Inr resp \<Rightarrow>
                           (case json_body resp of
                              Inl e \<Rightarrow> (Inl e, w2)
                            | Inr decoded \<Rightarrow>
                                if status_code resp = 200
                                then (Inr decoded,
                                      set_cached_response cache_key decoded now_set w2)
                                else (Inr (error_result
                                             (py_str ''API request failed: ''
                                              @ py_str (str_int (status_code resp))
                                              @ py_str '' - '' @ text_body resp)), w2)))))"

text \<open>
  The two handlers: \<^verbatim>\<open>except requests.exceptions.RequestException\<close>, then
  \<^verbatim>\<open>except Exception\<close>. The result keeps the type \<open>exn + jvalue\<close>: \<open>Inl\<close> would be an
  exception that leaves the method.
\<close>

definition send_chat_message ::
  "(string \<Rightarrow> pystr) \<Rightarrow> (chat_request \<Rightarrow> exn + http_response) \<Rightarrow> real \<Rightarrow> real \<Rightarrow>
   dict list \<Rightarrow> pystr option \<Rightarrow> pystr \<Rightarrow> world \<Rightarrow> (exn + jvalue) \<times> world" where
  "send_chat_message md5_hexdigest requests_post now_get now_set msgs session_id mdl w =
     (case send_chat_message_try md5_hexdigest requests_post now_get now_set
             msgs session_id mdl w of
        (Inl (RequestException e), w') \<Rightarrow>
          (Inr (error_result (py_str ''Network error occurred: '' @ e)), w')
      | (Inl (Exception e), w') \<Rightarrow>
          (Inr (error_result (py_str ''An error occurred: '' @ e)), w')
      | (Inr result, w') \<Rightarrow> (Inr result, w'))"

section \<open>Properties\<close>

subsection \<open>Auxiliary facts\<close>

lemma update_fresh_key: "k \<notin> fst ` set al \<Longrightarrow> AList.update k v al = al @ [(k, v)]"
  by (induction al) auto

lemma cleanup_loop_filter:
  "distinct (map fst c) \<Longrightarrow> fst ` set c \<inter> fst ` set acc = {} \<Longrightarrow>
   cleanup_loop t c (acc, n) =
     (acc @ filter (\<lambda>p. t - timestamp (snd p) < CACHE_DURATION) c,
      n + length (filter (\<lambda>p. \<not> t - timestamp (snd p) < CACHE_DURATION) c))"
proof (induction c arbitrary: acc n)
  case Nil
  then show ?case by simp
next
  case (Cons p c)
  obtain k item where p: "p = (k, item)" by (cases p)
  from Cons.prems have d: "distinct (map fst c)" and knc: "k \<notin> fst ` set c"
    and kna: "k \<notin> fst ` set acc" and disj: "fst ` set c \<inter> fst ` set acc = {}"
    by (auto simp: p)
  show ?case
  proof (cases "t - timestamp item < CACHE_DURATION")
    case True
    have "fst ` set c \<inter> fst ` set (acc @ [(k, item)]) = {}"
      using disj knc by auto
    from Cons.IH [OF d this] True kna show ?thesis
      by (simp add: p update_fresh_key)
  next
    case False
    from Cons.IH [OF d disj] False show ?thesis
      by (simp add: p)
  qed
qed

lemma count_loop_filter:
  "count_loop t c (a, e) =
     (a + length (filter (\<lambda>p. t - timestamp (snd p) < CACHE_DURATION) c),
      e + length (filter (\<lambda>p. \<not> t - timestamp (snd p) < CACHE_DURATION) c))"
  by (induction c arbitrary: a e) auto

lemma distinct_split_entry:
  "distinct (map fst c) \<Longrightarrow> map_of c k = Some item \<Longrightarrow>
   \<exists>xs ys. c = xs @ (k, item) # ys \<and> k \<notin> fst ` set xs \<and> k \<notin> fst ` set ys"
proof (induction c)
  case Nil
  then show ?case by simp
next
  case (Cons p c)
  show ?case
  proof (cases "fst p = k")
    case True
    with Cons.prems have "p = (k, item)" "k \<notin> fst ` set c"
      by (cases p; auto)+
    then have "p # c = [] @ (k, item) # c \<and> k \<notin> fst ` set [] \<and> k \<notin> fst ` set c"
      by simp
    then show ?thesis by blast
  next
    case False
    with Cons.prems have "distinct (map fst c)" "map_of c k = Some item"
      by (cases p; auto)+
    from Cons.IH [OF this] obtain xs ys where
      "c = xs @ (k, item) # ys" "k \<notin> fst ` set xs" "k \<notin> fst ` set ys" by blast
    with False have "p # c = (p # xs) @ (k, item) # ys \<and> k \<notin> fst ` set (p # xs) \<and> k \<notin> fst ` set ys"
      by auto
    then show ?thesis by blast
  qed
qed



lemma show_cache_info_eq:
  "show_cache_info t w =
     \<lparr>cache_count = length (api_cache w),
      active_entries = length (filter (\<lambda>p. t - timestamp (snd p) < CACHE_DURATION) (api_cache w)),
      expired_entries =
        length (filter (\<lambda>p. \<not> t - timestamp (snd p) < CACHE_DURATION) (api_cache w))\<rparr>"
  by (simp add: show_cache_info_def count_loop_filter)

lemma cache_file_not_test_file: "CACHE_FILE \<noteq> TEST_FILE"
  by (simp add: CACHE_FILE_def TEST_FILE_def)

lemma get_cached_response_entries:
  "map_of (api_cache (snd (get_cached_response k now w))) k' = Some item \<Longrightarrow>
   map_of (api_cache w) k' = Some item"
  by (auto simp: get_cached_response_def Let_def AList.delete_conv'
      split: option.splits if_splits)

lemma get_cached_response_posted:
  "posted (snd (get_cached_response k now w)) = posted w"
  by (simp add: get_cached_response_def Let_def split: option.split)

lemma get_cached_response_hit:
  "map_of (api_cache w) k = Some item \<Longrightarrow> now - timestamp item < CACHE_DURATION \<Longrightarrow>
   get_cached_response k now w = (Some (response item), w)"
  by (simp add: get_cached_response_def)

lemma save_writes_pickle:
  "CACHE_FILE \<notin> denied fs \<Longrightarrow> dump_raises fs c CACHE_FILE = None \<Longrightarrow>
   files (save_cache_to_file c fs) CACHE_FILE = Some (Pickle (PyCache c))"
  using cache_file_not_test_file
  by (simp add: save_cache_to_file_def open_write_def Let_def split: option.split)

lemma get_cached_response_Some:
  "get_cached_response k now w = (Some v, w1) \<Longrightarrow>
   \<exists>item. map_of (api_cache w) k = Some item \<and> response item = v"
  by (auto simp: get_cached_response_def Let_def split: option.splits if_splits)

lemma is_dict_JObject: "is_dict v \<Longrightarrow> \<exists>d. v = JObject d"
  by (cases v) (simp_all add: is_dict_def)





lemma hex_digit_not_quote: "d < 16 \<Longrightarrow> hex_digit d \<noteq> CHR 0x22"
proof -
  assume "d < 16"
  then have "hex_digit d \<in> set ''0123456789abcdef''"
    unfolding hex_digit_def by (intro nth_mem) simp
  then show ?thesis by auto
qed
























subsection \<open>The claims\<close>

text \<open>
  C1. A \<^verbatim>\<open>set\<close> of (key, response) at time \<open>now\<close>, followed by a \<^verbatim>\<open>get\<close> of the same
  key at any time \<open>now'\<close> with \<open>now' - now < CACHE_DURATION\<close>, returns exactly the
  stored response.
\<close>

theorem set_then_get_returns_response:
  assumes "now' - now < CACHE_DURATION"
  shows "fst (get_cached_response cache_key now'
                (set_cached_response cache_key resp now w)) = Some resp"
  using assms
  by (simp add: get_cached_response_def set_cached_response_def Let_def AList.update_conv')

theorem set_then_get_returns_response_witness:
  "(10::real) - 0 < CACHE_DURATION \<and>
   fst (get_cached_response (py_str ''k'') 10
          (set_cached_response (py_str ''k'') (JObject [(py_str ''message'', JString (py_str ''ok''))]) 0
             \<lparr>api_cache = [], disk = \<lparr>files = Map.empty, denied = {}, dump_raises = (\<lambda>c p. None)\<rparr>, posted = []\<rparr>))
     = Some (JObject [(py_str ''message'', JString (py_str ''ok''))])"
proof -
  have h: "(10::real) - 0 < CACHE_DURATION"
    by (simp add: CACHE_DURATION_def)
  show ?thesis
    using h set_then_get_returns_response [OF h] by simp
qed

text \<open>
  C5. Two computations of the cache key on the same messages and model, under any two
  session identifiers, give the same key.
\<close>

theorem cache_key_ignores_session:
  "get_cache_key md5_hexdigest msgs session_a mdl = get_cache_key md5_hexdigest msgs session_b mdl"
  by (simp add: get_cache_key_def)

text \<open>
  C4. After any call of \<^verbatim>\<open>send_chat_message\<close>, an entry of the store is an entry the
  store held before the call, or the payload of the response with status 200 just
  received, stored under the key of the request. When the call ends in an error (an
  exception in the body, or a status other than 200), every entry was there before:
  nothing is set.
\<close>

theorem errors_never_populate_cache:
  "(\<forall>k item.
      map_of (api_cache (snd (send_chat_message h post t1 t2 msgs sid mdl w))) k = Some item \<longrightarrow>
      map_of (api_cache w) k = Some item \<or>
      (\<exists>resp. post \<lparr>req_messages = msgs, req_session_id = sid, req_model = mdl\<rparr> = Inr resp \<and>
              status_code resp = 200 \<and> json_body resp = Inr (response item) \<and>
              timestamp item = t2 \<and> k = get_cache_key h msgs sid mdl)) \<and>
   ((\<exists>e. fst (send_chat_message_try h post t1 t2 msgs sid mdl w) = Inl e) \<or>
    (\<exists>resp. post \<lparr>req_messages = msgs, req_session_id = sid, req_model = mdl\<rparr> = Inr resp \<and>
            status_code resp \<noteq> 200) \<longrightarrow>
    (\<forall>k item.
      map_of (api_cache (snd (send_chat_message h post t1 t2 msgs sid mdl w))) k = Some item \<longrightarrow>
      map_of (api_cache w) k = Some item))"
proof -
  let ?key = "get_cache_key h msgs sid mdl"
  let ?req = "\<lparr>req_messages = msgs, req_session_id = sid, req_model = mdl\<rparr>"
  obtain g w1 where g: "get_cached_response ?key t1 w = (g, w1)"
    by (cases "get_cached_response ?key t1 w")
  have old: "\<And>k item. map_of (api_cache w1) k = Some item \<Longrightarrow> map_of (api_cache w) k = Some item"
    using get_cached_response_entries [of ?key t1 w] g by simp
  show ?thesis
  proof (cases "py_optional g = JNull")
    case False
    then show ?thesis
      using old by (simp add: send_chat_message_def send_chat_message_try_def g Let_def)
  next
    case True
    note None = True
    show ?thesis
    proof (cases "post ?req")
      case (Inl e)
      then show ?thesis
        using old None
        by (cases e) (simp_all add: send_chat_message_def send_chat_message_try_def g Let_def)
    next
      case (Inr resp)
      show ?thesis
      proof (cases "json_body resp")
        case (Inl e)
        then show ?thesis
          using old None Inr
          by (cases e) (simp_all add: send_chat_message_def send_chat_message_try_def g Let_def)
      next
        case decoded: (Inr d)
        show ?thesis
        proof (cases "status_code resp = 200")
          case True
          then show ?thesis
            using old None Inr decoded
            by (auto simp: send_chat_message_def send_chat_message_try_def g Let_def
                set_cached_response_def AList.update_conv' split: if_splits)
        next
          case False
          then show ?thesis
            using old None Inr decoded
            by (simp add: send_chat_message_def send_chat_message_try_def g Let_def)
        qed
      qed
    qed
  qed
qed

theorem errors_never_populate_cache_witness:
  "(\<lambda>req :: chat_request. Inr \<lparr>status_code = 500, text_body = py_str ''{}'', json_body = Inr (JObject [])\<rparr>)
      \<lparr>req_messages = [], req_session_id = None, req_model = (py_str ''m1'')\<rparr>
     = Inr \<lparr>status_code = 500, text_body = py_str ''{}'', json_body = Inr (JObject [])\<rparr> \<and>
   status_code \<lparr>status_code = 500, text_body = py_str ''{}'', json_body = Inr (JObject [])\<rparr> \<noteq> 200 \<and>
   (\<forall>k item.
      map_of (api_cache (snd (send_chat_message py_str
          (\<lambda>req. Inr \<lparr>status_code = 500, text_body = py_str ''{}'', json_body = Inr (JObject [])\<rparr>) 0 0
          [] None (py_str ''m1'')
          \<lparr>api_cache = [], disk = \<lparr>files = Map.empty, denied = {}, dump_raises = (\<lambda>c p. None)\<rparr>, posted = []\<rparr>))) k
        \<noteq> Some item)"
proof -
  let ?resp = "\<lparr>status_code = 500, text_body = py_str ''{}'', json_body = Inr (JObject [])\<rparr>"
  let ?post = "\<lambda>req :: chat_request. (Inr ?resp :: exn + http_response)"
  let ?w = "\<lparr>api_cache = [], disk = \<lparr>files = Map.empty, denied = {}, dump_raises = (\<lambda>c p. None)\<rparr>, posted = []\<rparr>"
  have a: "?post \<lparr>req_messages = [], req_session_id = None, req_model = (py_str ''m1'')\<rparr> = Inr ?resp"
    by simp
  have b: "status_code ?resp \<noteq> 200" by simp
  from a b have c: "\<exists>resp. ?post \<lparr>req_messages = [], req_session_id = None, req_model = (py_str ''m1'')\<rparr>
                       = Inr resp \<and> status_code resp \<noteq> 200"
    by blast
  from errors_never_populate_cache [of py_str ?post 0 0 "[]" None "py_str ''m1''" ?w] c
  have "\<forall>k item.
      map_of (api_cache (snd (send_chat_message py_str ?post 0 0 [] None (py_str ''m1'') ?w))) k = Some item
      \<longrightarrow> map_of (api_cache ?w) k = Some item"
    by blast
  then have "\<forall>k item.
      map_of (api_cache (snd (send_chat_message py_str ?post 0 0 [] None (py_str ''m1'') ?w))) k \<noteq> Some item"
    by simp
  with a b show ?thesis by blast
qed

text \<open>
  C2, as stated, fails in its part on the file: when the dump of the updated store
  raises (here \<^verbatim>\<open>OSError\<close> on a full disk), the stale \<^verbatim>\<open>get\<close> still returns absent and
  deletes the entry in memory, the exception is logged and swallowed, and the cache file
  is left truncated: it does not hold the updated store.
\<close>

theorem expired_get_failed_dump_counterexample:
  "fst (get_cached_response (py_str ''k'') 3601
          \<lparr>api_cache = [(py_str ''k'', \<lparr>response = JObject [], timestamp = 0\<rparr>)],
           disk = \<lparr>files = [CACHE_FILE \<mapsto>
                               Pickle (PyCache [(py_str ''k'', \<lparr>response = JObject [], timestamp = 0\<rparr>)])],
                   denied = {},
                   dump_raises = (\<lambda>c p. Some (Exception (py_str ''No space left on device'')))\<rparr>,
           posted = []\<rparr>) = None \<and>
   api_cache (snd (get_cached_response (py_str ''k'') 3601
          \<lparr>api_cache = [(py_str ''k'', \<lparr>response = JObject [], timestamp = 0\<rparr>)],
           disk = \<lparr>files = [CACHE_FILE \<mapsto>
                               Pickle (PyCache [(py_str ''k'', \<lparr>response = JObject [], timestamp = 0\<rparr>)])],
                   denied = {},
                   dump_raises = (\<lambda>c p. Some (Exception (py_str ''No space left on device'')))\<rparr>,
           posted = []\<rparr>)) = [] \<and>
   files (disk (snd (get_cached_response (py_str ''k'') 3601
          \<lparr>api_cache = [(py_str ''k'', \<lparr>response = JObject [], timestamp = 0\<rparr>)],
           disk = \<lparr>files = [CACHE_FILE \<mapsto>
                               Pickle (PyCache [(py_str ''k'', \<lparr>response = JObject [], timestamp = 0\<rparr>)])],
                   denied = {},
                   dump_raises = (\<lambda>c p. Some (Exception (py_str ''No space left on device'')))\<rparr>,
           posted = []\<rparr>))) CACHE_FILE = Some Partial \<and>
   Some Partial \<noteq> Some (Pickle (PyCache []))"
  by (simp add: get_cached_response_def CACHE_DURATION_def Let_def save_cache_to_file_def
      open_write_def)

text \<open>
  C2, amended. A \<^verbatim>\<open>get\<close> of a key whose entry is stale
  (\<open>now - timestamp \<ge> CACHE_DURATION\<close>) returns absent, deletes the entry from the store
  and calls \<^verbatim>\<open>save_cache_to_file\<close> on the updated store; the cache file then holds the
  pickle of the updated store whenever the file can be opened and the dump completes.
  A snapshot of \<^verbatim>\<open>show_cache_info\<close> taken afterwards counts one entry less, and one
  expired entry less at any time at which the entry is stale. The keys of the store are
  distinct, as those of a Python dictionary are.
\<close>

theorem expired_entry_evicted_on_get:
  assumes present: "map_of (api_cache w) cache_key = Some item"
    and stale: "now - timestamp item \<ge> CACHE_DURATION"
    and keys: "distinct (map fst (api_cache w))"
  shows "fst (get_cached_response cache_key now w) = None \<and>
         (let w' = snd (get_cached_response cache_key now w) in
            map_of (api_cache w') cache_key = None \<and>
            api_cache w' = AList.delete cache_key (api_cache w) \<and>
            disk w' = save_cache_to_file (api_cache w') (disk w) \<and>
            (CACHE_FILE \<notin> denied (disk w) \<and>
             dump_raises (disk w) (api_cache w') CACHE_FILE = None \<longrightarrow>
               files (disk w') CACHE_FILE = Some (Pickle (PyCache (api_cache w')))) \<and>
            (\<forall>t. cache_count (show_cache_info t w') + 1 = cache_count (show_cache_info t w)) \<and>
            (\<forall>t. t - timestamp item \<ge> CACHE_DURATION \<longrightarrow>
               expired_entries (show_cache_info t w') + 1 = expired_entries (show_cache_info t w) \<and>
               active_entries (show_cache_info t w') = active_entries (show_cache_info t w)))"
proof -
  define w' where "w' = snd (get_cached_response cache_key now w)"
  have ret: "fst (get_cached_response cache_key now w) = None"
    using present stale by (simp add: get_cached_response_def Let_def)
  have c': "api_cache w' = AList.delete cache_key (api_cache w)"
    using present stale by (simp add: w'_def get_cached_response_def Let_def)
  have d': "disk w' = save_cache_to_file (api_cache w') (disk w)"
    using present stale by (simp add: w'_def get_cached_response_def Let_def)
  have gone: "map_of (api_cache w') cache_key = None"
    by (simp add: c' AList.delete_conv')
  have onfile: "CACHE_FILE \<notin> denied (disk w) \<and>
             dump_raises (disk w) (api_cache w') CACHE_FILE = None \<longrightarrow>
               files (disk w') CACHE_FILE = Some (Pickle (PyCache (api_cache w')))"
    by (simp add: d' save_writes_pickle)
  from distinct_split_entry [OF keys present] obtain xs ys where
    split: "api_cache w = xs @ (cache_key, item) # ys"
    and nx: "cache_key \<notin> fst ` set xs" and ny: "cache_key \<notin> fst ` set ys" by blast
  have dx: "AList.delete cache_key xs = xs" and dy: "AList.delete cache_key ys = ys"
    using nx ny by simp_all
  have "AList.delete cache_key (xs @ (cache_key, item) # ys) =
          AList.delete cache_key xs @ AList.delete cache_key ys"
    by (simp add: AList.delete_eq)
  then have del: "api_cache w' = xs @ ys"
    by (simp add: c' split dx dy)
  have count: "\<forall>t. cache_count (show_cache_info t w') + 1 = cache_count (show_cache_info t w)"
    by (simp add: show_cache_info_eq del split)
  have counts: "\<forall>t. t - timestamp item \<ge> CACHE_DURATION \<longrightarrow>
               expired_entries (show_cache_info t w') + 1 = expired_entries (show_cache_info t w) \<and>
               active_entries (show_cache_info t w') = active_entries (show_cache_info t w)"
    by (simp add: show_cache_info_eq del split)
  show ?thesis
    unfolding Let_def w'_def [symmetric]
    using ret c' d' gone onfile count counts by blast
qed

theorem expired_entry_evicted_on_get_witness:
  "fst (get_cached_response (py_str ''k'') 3601
          \<lparr>api_cache = [(py_str ''k'', \<lparr>response = JObject [], timestamp = 0\<rparr>)],
           disk = \<lparr>files = Map.empty, denied = {}, dump_raises = (\<lambda>c p. None)\<rparr>,
           posted = []\<rparr>) = None \<and>
   api_cache (snd (get_cached_response (py_str ''k'') 3601
          \<lparr>api_cache = [(py_str ''k'', \<lparr>response = JObject [], timestamp = 0\<rparr>)],
           disk = \<lparr>files = Map.empty, denied = {}, dump_raises = (\<lambda>c p. None)\<rparr>,
           posted = []\<rparr>)) = [] \<and>
   files (disk (snd (get_cached_response (py_str ''k'') 3601
          \<lparr>api_cache = [(py_str ''k'', \<lparr>response = JObject [], timestamp = 0\<rparr>)],
           disk = \<lparr>files = Map.empty, denied = {}, dump_raises = (\<lambda>c p. None)\<rparr>,
           posted = []\<rparr>))) CACHE_FILE = Some (Pickle (PyCache [])) \<and>
   cache_count (show_cache_info 3602 (snd (get_cached_response (py_str ''k'') 3601
          \<lparr>api_cache = [(py_str ''k'', \<lparr>response = JObject [], timestamp = 0\<rparr>)],
           disk = \<lparr>files = Map.empty, denied = {}, dump_raises = (\<lambda>c p. None)\<rparr>,
           posted = []\<rparr>))) = 0"
proof -
  let ?item = "\<lparr>response = JObject [], timestamp = 0\<rparr>"
  let ?w = "\<lparr>api_cache = [(py_str ''k'', ?item)],
             disk = \<lparr>files = Map.empty, denied = {}, dump_raises = (\<lambda>c p. None)\<rparr>,
             posted = []\<rparr>"
  have p: "map_of (api_cache ?w) (py_str ''k'') = Some ?item" by simp
  have s: "3601 - timestamp ?item \<ge> CACHE_DURATION" by (simp add: CACHE_DURATION_def)
  have k: "distinct (map fst (api_cache ?w))" by simp
  let ?w' = "snd (get_cached_response (py_str ''k'') 3601 ?w)"
  from expired_entry_evicted_on_get [OF p s k]
  have r: "fst (get_cached_response (py_str ''k'') 3601 ?w) = None"
    and c: "api_cache ?w' = AList.delete (py_str ''k'') (api_cache ?w)"
    and f: "CACHE_FILE \<notin> denied (disk ?w) \<and>
            dump_raises (disk ?w) (api_cache ?w') CACHE_FILE = None \<longrightarrow>
            files (disk ?w') CACHE_FILE = Some (Pickle (PyCache (api_cache ?w')))"
    and n: "\<forall>t. cache_count (show_cache_info t ?w') + 1 = cache_count (show_cache_info t ?w)"
    unfolding Let_def by blast+
  from c have e: "api_cache ?w' = []" by simp
  from f have onfile: "files (disk ?w') CACHE_FILE = Some (Pickle (PyCache []))"
    by (simp add: e)
  from n have "cache_count (show_cache_info 3602 ?w') + 1 = cache_count (show_cache_info 3602 ?w)"
    by blast
  then have z: "cache_count (show_cache_info 3602 ?w') = 0"
    by (simp add: show_cache_info_eq)
  from r e onfile z show ?thesis by blast
qed

text \<open>
  C9, evaluated: saving a store with one entry to an empty disk leaves, besides the
  cache file, the file \<^verbatim>\<open>test_reponse.json\<close> with the JSON dump of the store.
\<close>

theorem save_cache_to_file_writes_test_file:
  "files (save_cache_to_file
            [(py_str ''k'', \<lparr>response = JObject [(py_str ''message'', JString (py_str ''ok''))],
                              timestamp = 0\<rparr>)]
            \<lparr>files = Map.empty, denied = {}, dump_raises = (\<lambda>c p. None)\<rparr>) TEST_FILE
     = Some (JsonDump [(py_str ''k'',
                        \<lparr>response = JObject [(py_str ''message'', JString (py_str ''ok''))],
                         timestamp = 0\<rparr>)]) \<and>
   TEST_FILE \<noteq> CACHE_FILE \<and>
   files \<lparr>files = Map.empty, denied = {}, dump_raises = (\<lambda>c p. None)\<rparr> TEST_FILE = None"
  by (simp add: save_cache_to_file_def open_write_def Let_def CACHE_FILE_def TEST_FILE_def)

text \<open>
  C8, as stated, fails in "persists if at least one entry was removed": when the dump
  of the pruned store raises (here \<^verbatim>\<open>OSError\<close> on a full disk), the entry is removed
  from the store returned, the exception is logged and swallowed, and the cache file is
  left truncated: it does not hold the pruned store.
\<close>

theorem cleanup_failed_dump_counterexample:
  "fst (cleanup_expired_cache 3650 [(py_str ''a'', \<lparr>response = JObject [], timestamp = 0\<rparr>)]
          \<lparr>files = [CACHE_FILE \<mapsto>
                      Pickle (PyCache [(py_str ''a'', \<lparr>response = JObject [], timestamp = 0\<rparr>)])],
           denied = {},
           dump_raises = (\<lambda>c p. Some (Exception (py_str ''No space left on device'')))\<rparr>) = [] \<and>
   files (snd (cleanup_expired_cache 3650
          [(py_str ''a'', \<lparr>response = JObject [], timestamp = 0\<rparr>)]
          \<lparr>files = [CACHE_FILE \<mapsto>
                      Pickle (PyCache [(py_str ''a'', \<lparr>response = JObject [], timestamp = 0\<rparr>)])],
           denied = {},
           dump_raises = (\<lambda>c p. Some (Exception (py_str ''No space left on device'')))\<rparr>))
     CACHE_FILE = Some Partial \<and>
   Some Partial \<noteq> Some (Pickle (PyCache []))"
  by (simp add: cleanup_expired_cache_def CACHE_DURATION_def save_cache_to_file_def
      open_write_def)

text \<open>
  C8, amended. \<^verbatim>\<open>cleanup_expired_cache\<close> keeps exactly the entries with
  \<open>now - timestamp < CACHE_DURATION\<close>, unchanged and in order. It calls
  \<^verbatim>\<open>save_cache_to_file\<close> on the result if and only if some entry was removed, and the
  cache file then holds the pickle of the pruned store whenever the file can be opened
  and the dump completes; when nothing was removed the disk is untouched. Module
  initialisation runs it on what \<^verbatim>\<open>load_cache_from_file\<close> returned, when that is a
  dictionary of cache entries.
\<close>

theorem cleanup_removes_exactly_expired:
  assumes keys: "distinct (map fst cache_data)"
  shows "fst (cleanup_expired_cache t cache_data fs) =
           filter (\<lambda>(k, item). t - timestamp item < CACHE_DURATION) cache_data \<and>
         snd (cleanup_expired_cache t cache_data fs) =
           (if \<exists>p \<in> set cache_data. t - timestamp (snd p) \<ge> CACHE_DURATION
            then save_cache_to_file (fst (cleanup_expired_cache t cache_data fs)) fs
            else fs) \<and>
         ((\<exists>p \<in> set cache_data. t - timestamp (snd p) \<ge> CACHE_DURATION) \<and>
          CACHE_FILE \<notin> denied fs \<and>
          dump_raises fs (fst (cleanup_expired_cache t cache_data fs)) CACHE_FILE = None \<longrightarrow>
            files (snd (cleanup_expired_cache t cache_data fs)) CACHE_FILE
              = Some (Pickle (PyCache (fst (cleanup_expired_cache t cache_data fs))))) \<and>
         (\<forall>loaded. load_cache_from_file fs = Inr (PyCache loaded) \<longrightarrow>
            startup t fs =
              Inr \<lparr>api_cache = fst (cleanup_expired_cache t loaded fs),
                   disk = snd (cleanup_expired_cache t loaded fs), posted = []\<rparr>)"
proof -
  have loop: "cleanup_loop t cache_data ([], 0) =
      (filter (\<lambda>p. t - timestamp (snd p) < CACHE_DURATION) cache_data,
       length (filter (\<lambda>p. \<not> t - timestamp (snd p) < CACHE_DURATION) cache_data))"
    using cleanup_loop_filter [OF keys, of "[]" t 0] by simp
  have same: "(\<lambda>(k, item). t - timestamp item < CACHE_DURATION) =
              (\<lambda>p. t - timestamp (snd p) < CACHE_DURATION)"
    by (simp add: fun_eq_iff)
  have kept: "fst (cleanup_expired_cache t cache_data fs) =
           filter (\<lambda>(k, item). t - timestamp item < CACHE_DURATION) cache_data"
    by (simp add: cleanup_expired_cache_def loop same)
  have some: "(0 < length (filter (\<lambda>p. \<not> t - timestamp (snd p) < CACHE_DURATION) cache_data))
      = (\<exists>p \<in> set cache_data. t - timestamp (snd p) \<ge> CACHE_DURATION)"
    by (auto simp: filter_empty_conv not_less)
  have saved: "snd (cleanup_expired_cache t cache_data fs) =
           (if \<exists>p \<in> set cache_data. t - timestamp (snd p) \<ge> CACHE_DURATION
            then save_cache_to_file (fst (cleanup_expired_cache t cache_data fs)) fs
            else fs)"
    using some by (simp add: cleanup_expired_cache_def loop)
  have onfile: "(\<exists>p \<in> set cache_data. t - timestamp (snd p) \<ge> CACHE_DURATION) \<and>
          CACHE_FILE \<notin> denied fs \<and>
          dump_raises fs (fst (cleanup_expired_cache t cache_data fs)) CACHE_FILE = None \<longrightarrow>
            files (snd (cleanup_expired_cache t cache_data fs)) CACHE_FILE
              = Some (Pickle (PyCache (fst (cleanup_expired_cache t cache_data fs))))"
    using saved save_writes_pickle by simp
  have init: "\<forall>loaded. load_cache_from_file fs = Inr (PyCache loaded) \<longrightarrow>
            startup t fs =
              Inr \<lparr>api_cache = fst (cleanup_expired_cache t loaded fs),
                   disk = snd (cleanup_expired_cache t loaded fs), posted = []\<rparr>"
    by (simp add: startup_def split: prod.split)
  from kept saved onfile init show ?thesis by blast
qed

theorem cleanup_removes_exactly_expired_witness:
  "distinct (map fst [(py_str ''a'', \<lparr>response = JObject [], timestamp = 0\<rparr>),
                      (py_str ''b'', \<lparr>response = JObject [], timestamp = 100\<rparr>)]) \<and>
   fst (cleanup_expired_cache 3650
          [(py_str ''a'', \<lparr>response = JObject [], timestamp = 0\<rparr>),
           (py_str ''b'', \<lparr>response = JObject [], timestamp = 100\<rparr>)]
          \<lparr>files = Map.empty, denied = {}, dump_raises = (\<lambda>c p. None)\<rparr>)
     = [(py_str ''b'', \<lparr>response = JObject [], timestamp = 100\<rparr>)] \<and>
   files (snd (cleanup_expired_cache 3650
          [(py_str ''a'', \<lparr>response = JObject [], timestamp = 0\<rparr>),
           (py_str ''b'', \<lparr>response = JObject [], timestamp = 100\<rparr>)]
          \<lparr>files = Map.empty, denied = {}, dump_raises = (\<lambda>c p. None)\<rparr>)) CACHE_FILE
     = Some (Pickle (PyCache [(py_str ''b'', \<lparr>response = JObject [], timestamp = 100\<rparr>)]))"
proof -
  let ?c = "[(py_str ''a'', \<lparr>response = JObject [], timestamp = 0::real\<rparr>),
             (py_str ''b'', \<lparr>response = JObject [], timestamp = 100\<rparr>)]"
  let ?fs = "\<lparr>files = Map.empty, denied = {}, dump_raises = (\<lambda>c p. None)\<rparr>"
  have d: "distinct (map fst ?c)"
    by (simp add: py_str_def)
  from cleanup_removes_exactly_expired [OF d, of 3650 ?fs]
  have kept: "fst (cleanup_expired_cache 3650 ?c ?fs) =
           filter (\<lambda>(k, item). 3650 - timestamp item < CACHE_DURATION) ?c"
    and onfile: "(\<exists>p \<in> set ?c. 3650 - timestamp (snd p) \<ge> CACHE_DURATION) \<and>
          CACHE_FILE \<notin> denied ?fs \<and>
          dump_raises ?fs (fst (cleanup_expired_cache 3650 ?c ?fs)) CACHE_FILE = None \<longrightarrow>
            files (snd (cleanup_expired_cache 3650 ?c ?fs)) CACHE_FILE
              = Some (Pickle (PyCache (fst (cleanup_expired_cache 3650 ?c ?fs))))"
    by blast+
  from kept have k: "fst (cleanup_expired_cache 3650 ?c ?fs)
      = [(py_str ''b'', \<lparr>response = JObject [], timestamp = 100\<rparr>)]"
    by (simp add: CACHE_DURATION_def)
  from onfile have "files (snd (cleanup_expired_cache 3650 ?c ?fs)) CACHE_FILE
      = Some (Pickle (PyCache (fst (cleanup_expired_cache 3650 ?c ?fs))))"
    by (simp add: CACHE_DURATION_def)
  with d k show ?thesis by simp
qed

text \<open>
  C7, as stated, fails: a cache file that is the pickle of a list of three elements is
  returned as it is, and that is no store; and a cache file whose unpickling raises
  \<^verbatim>\<open>SystemExit\<close> makes \<^verbatim>\<open>load_cache_from_file\<close> raise it to its caller.
\<close>

theorem load_cache_from_file_counterexample:
  "load_cache_from_file
     \<lparr>files = [CACHE_FILE \<mapsto> Pickle (PySized 3)], denied = {},
      dump_raises = (\<lambda>c p. None)\<rparr> = Inr (PySized 3) \<and>
   load_cache_from_file
     \<lparr>files = [CACHE_FILE \<mapsto> Unpicklable (RaisedBase (py_str ''SystemExit''))], denied = {},
      dump_raises = (\<lambda>c p. None)\<rparr> = Inl (RaisedBase (py_str ''SystemExit''))"
  by (simp add: load_cache_from_file_def load_cache_from_file_try_def open_read_def
      pickle_load_def py_len_def)

text \<open>
  C7, amended. \<^verbatim>\<open>load_cache_from_file\<close> returns the empty store when the file is
  absent, and whenever opening the file, unpickling it or taking the length of the
  unpickled object raises an \<^verbatim>\<open>Exception\<close>; no \<^verbatim>\<open>Exception\<close> reaches its caller.
  When the file unpickles to an object with a length, that object is returned as it is.
  An exception raised in unpickling that is not an \<^verbatim>\<open>Exception\<close> is not caught.
\<close>

theorem load_catches_every_exception:
  "(files fs CACHE_FILE = None \<longrightarrow> load_cache_from_file fs = Inr (PyCache [])) \<and>
   (files fs CACHE_FILE \<noteq> None \<and> CACHE_FILE \<in> denied fs \<longrightarrow>
      load_cache_from_file fs = Inr (PyCache [])) \<and>
   (\<forall>b e. files fs CACHE_FILE = Some b \<and> CACHE_FILE \<notin> denied fs \<and>
           pickle_load b = Inl (Raised e) \<longrightarrow>
      load_cache_from_file fs = Inr (PyCache [])) \<and>
   (\<forall>b obj e. files fs CACHE_FILE = Some b \<and> CACHE_FILE \<notin> denied fs \<and>
           pickle_load b = Inr obj \<and> py_len obj = Inl e \<longrightarrow>
      load_cache_from_file fs = Inr (PyCache [])) \<and>
   (\<forall>b obj n. files fs CACHE_FILE = Some b \<and> CACHE_FILE \<notin> denied fs \<and>
           pickle_load b = Inr obj \<and> py_len obj = Inr n \<longrightarrow>
      load_cache_from_file fs = Inr obj) \<and>
   (\<forall>b s. files fs CACHE_FILE = Some b \<and> CACHE_FILE \<notin> denied fs \<and>
           pickle_load b = Inl (RaisedBase s) \<longrightarrow>
      load_cache_from_file fs = Inl (RaisedBase s)) \<and>
   (\<forall>e. load_cache_from_file fs \<noteq> Inl (Raised e))"
proof -
  have absent: "files fs CACHE_FILE = None \<longrightarrow> load_cache_from_file fs = Inr (PyCache [])"
    by (simp add: load_cache_from_file_def load_cache_from_file_try_def)
  have closed: "files fs CACHE_FILE \<noteq> None \<and> CACHE_FILE \<in> denied fs \<longrightarrow>
      load_cache_from_file fs = Inr (PyCache [])"
    by (simp add: load_cache_from_file_def load_cache_from_file_try_def open_read_def)
  have corrupt: "\<forall>b e. files fs CACHE_FILE = Some b \<and> CACHE_FILE \<notin> denied fs \<and>
           pickle_load b = Inl (Raised e) \<longrightarrow>
      load_cache_from_file fs = Inr (PyCache [])"
    by (simp add: load_cache_from_file_def load_cache_from_file_try_def open_read_def)
  have nolen: "\<forall>b obj e. files fs CACHE_FILE = Some b \<and> CACHE_FILE \<notin> denied fs \<and>
           pickle_load b = Inr obj \<and> py_len obj = Inl e \<longrightarrow>
      load_cache_from_file fs = Inr (PyCache [])"
    by (simp add: load_cache_from_file_def load_cache_from_file_try_def open_read_def)
  have loaded: "\<forall>b obj n. files fs CACHE_FILE = Some b \<and> CACHE_FILE \<notin> denied fs \<and>
           pickle_load b = Inr obj \<and> py_len obj = Inr n \<longrightarrow>
      load_cache_from_file fs = Inr obj"
    by (simp add: load_cache_from_file_def load_cache_from_file_try_def open_read_def)
  have base: "\<forall>b s. files fs CACHE_FILE = Some b \<and> CACHE_FILE \<notin> denied fs \<and>
           pickle_load b = Inl (RaisedBase s) \<longrightarrow>
      load_cache_from_file fs = Inl (RaisedBase s)"
    by (simp add: load_cache_from_file_def load_cache_from_file_try_def open_read_def)
  have caught: "\<forall>e. load_cache_from_file fs \<noteq> Inl (Raised e)"
    by (simp add: load_cache_from_file_def split: sum.split option.split raised.split)
  from absent closed corrupt nolen loaded base caught show ?thesis by blast
qed

theorem load_catches_every_exception_witness:
  "files \<lparr>files = [CACHE_FILE \<mapsto> Partial], denied = {}, dump_raises = (\<lambda>c p. None)\<rparr> CACHE_FILE
     = Some Partial \<and>
   pickle_load Partial = Inl (Raised (Exception (py_str ''Ran out of input''))) \<and>
   load_cache_from_file
     \<lparr>files = [CACHE_FILE \<mapsto> Partial], denied = {}, dump_raises = (\<lambda>c p. None)\<rparr>
     = Inr (PyCache []) \<and>
   load_cache_from_file \<lparr>files = Map.empty, denied = {}, dump_raises = (\<lambda>c p. None)\<rparr>
     = Inr (PyCache [])"
proof -
  let ?fs = "\<lparr>files = [CACHE_FILE \<mapsto> Partial], denied = {}, dump_raises = (\<lambda>c p. None)\<rparr>"
  let ?nofile = "\<lparr>files = Map.empty, denied = {}, dump_raises = (\<lambda>c p. None)\<rparr>"
  have a: "files ?fs CACHE_FILE = Some Partial" by simp
  have n: "CACHE_FILE \<notin> denied ?fs" by simp
  have b: "pickle_load Partial = Inl (Raised (Exception (py_str ''Ran out of input'')))"
    by (simp add: pickle_load_def)
  have c: "files ?nofile CACHE_FILE = None" by simp
  from load_catches_every_exception [of ?fs] a n b
  have 1: "load_cache_from_file ?fs = Inr (PyCache [])" by blast
  from load_catches_every_exception [of ?nofile] c
  have 2: "load_cache_from_file ?nofile = Inr (PyCache [])" by blast
  from a b 1 2 show ?thesis by blast
qed

text \<open>
  C3, as stated, fails: a response with status 201 is a 2xx result, and its payload is
  neither stored nor returned; the error dictionary is returned and the store stays
  empty.
\<close>

theorem send_chat_message_status_201_counterexample:
  "fst (send_chat_message py_str
          (\<lambda>req. Inr \<lparr>status_code = 201, text_body = py_str ''{}'', json_body = Inr (JObject [])\<rparr>)
          0 0 [] None (py_str ''m1'')
          \<lparr>api_cache = [],
           disk = \<lparr>files = Map.empty, denied = {}, dump_raises = (\<lambda>c p. None)\<rparr>,
           posted = []\<rparr>)
     = Inr (JObject [(py_str ''error'', JString (py_str ''API request failed: 201 - {}'')),
                     (py_str ''status'', JString (py_str ''error''))]) \<and>
   api_cache (snd (send_chat_message py_str
          (\<lambda>req. Inr \<lparr>status_code = 201, text_body = py_str ''{}'', json_body = Inr (JObject [])\<rparr>)
          0 0 [] None (py_str ''m1'')
          \<lparr>api_cache = [],
           disk = \<lparr>files = Map.empty, denied = {}, dump_raises = (\<lambda>c p. None)\<rparr>,
           posted = []\<rparr>)) = []"
  by (simp add: send_chat_message_def send_chat_message_try_def get_cached_response_def
      py_optional_def Let_def error_result_def str_int_def str_nat.simps digit_char_def
      py_str_def)

text \<open>
  C3, amended. With a fresh entry for the key in the store whose response is not
  \<^verbatim>\<open>None\<close>, \<^verbatim>\<open>send_chat_message\<close> returns the cached response and changes nothing
  (no call of \<^verbatim>\<open>requests.post\<close>). When \<^verbatim>\<open>get_cached_response\<close> returns absent,
  exactly one request is posted; if the response has status 200 and its body decodes,
  the payload is stored by \<^verbatim>\<open>set_cached_response\<close> and returned; if the status is any
  other and the body decodes, the error dictionary with the status and the raw body is
  returned and nothing is stored.
\<close>

theorem send_chat_message_cache_protocol:
  "(\<forall>item. map_of (api_cache w) (get_cache_key h msgs sid mdl) = Some item \<and>
           t1 - timestamp item < CACHE_DURATION \<and> response item \<noteq> JNull \<longrightarrow>
      send_chat_message h post t1 t2 msgs sid mdl w = (Inr (response item), w)) \<and>
   (fst (get_cached_response (get_cache_key h msgs sid mdl) t1 w) = None \<longrightarrow>
      posted (snd (send_chat_message h post t1 t2 msgs sid mdl w))
        = posted w @ [\<lparr>req_messages = msgs, req_session_id = sid, req_model = mdl\<rparr>] \<and>
      (\<forall>resp d.
         post \<lparr>req_messages = msgs, req_session_id = sid, req_model = mdl\<rparr> = Inr resp \<and>
         json_body resp = Inr d \<and> status_code resp = 200 \<longrightarrow>
           fst (send_chat_message h post t1 t2 msgs sid mdl w) = Inr d \<and>
           snd (send_chat_message h post t1 t2 msgs sid mdl w)
             = set_cached_response (get_cache_key h msgs sid mdl) d t2
                 ((snd (get_cached_response (get_cache_key h msgs sid mdl) t1 w))
                    \<lparr>posted := posted w
                       @ [\<lparr>req_messages = msgs, req_session_id = sid, req_model = mdl\<rparr>]\<rparr>)) \<and>
      (\<forall>resp d.
         post \<lparr>req_messages = msgs, req_session_id = sid, req_model = mdl\<rparr> = Inr resp \<and>
         json_body resp = Inr d \<and> status_code resp \<noteq> 200 \<longrightarrow>
           fst (send_chat_message h post t1 t2 msgs sid mdl w)
             = Inr (JObject
                      [(py_str ''error'',
                        JString (py_str ''API request failed: ''
                                 @ py_str (str_int (status_code resp))
                                 @ py_str '' - '' @ text_body resp)),
                       (py_str ''status'', JString (py_str ''error''))]) \<and>
           api_cache (snd (send_chat_message h post t1 t2 msgs sid mdl w))
             = api_cache (snd (get_cached_response (get_cache_key h msgs sid mdl) t1 w))))"
proof -
  let ?key = "get_cache_key h msgs sid mdl"
  let ?req = "\<lparr>req_messages = msgs, req_session_id = sid, req_model = mdl\<rparr>"
  have hit: "\<forall>item. map_of (api_cache w) ?key = Some item \<and>
           t1 - timestamp item < CACHE_DURATION \<and> response item \<noteq> JNull \<longrightarrow>
      send_chat_message h post t1 t2 msgs sid mdl w = (Inr (response item), w)"
    by (simp add: send_chat_message_def send_chat_message_try_def Let_def
        get_cached_response_hit py_optional_def)
  have miss: "fst (get_cached_response ?key t1 w) = None \<longrightarrow>
      (posted (snd (send_chat_message h post t1 t2 msgs sid mdl w)) = posted w @ [?req]) \<and>
      (\<forall>resp d. post ?req = Inr resp \<and> json_body resp = Inr d \<and> status_code resp = 200 \<longrightarrow>
           fst (send_chat_message h post t1 t2 msgs sid mdl w) = Inr d \<and>
           snd (send_chat_message h post t1 t2 msgs sid mdl w)
             = set_cached_response ?key d t2
                 ((snd (get_cached_response ?key t1 w))\<lparr>posted := posted w @ [?req]\<rparr>)) \<and>
      (\<forall>resp d. post ?req = Inr resp \<and> json_body resp = Inr d \<and> status_code resp \<noteq> 200 \<longrightarrow>
           fst (send_chat_message h post t1 t2 msgs sid mdl w)
             = Inr (JObject
                      [(py_str ''error'',
                        JString (py_str ''API request failed: ''
                                 @ py_str (str_int (status_code resp))
                                 @ py_str '' - '' @ text_body resp)),
                       (py_str ''status'', JString (py_str ''error''))]) \<and>
           api_cache (snd (send_chat_message h post t1 t2 msgs sid mdl w))
             = api_cache (snd (get_cached_response ?key t1 w)))"
    (is "_ \<longrightarrow> ?P \<and> ?Q \<and> ?R")
  proof
    assume none: "fst (get_cached_response ?key t1 w) = None"
    obtain w1 where g: "get_cached_response ?key t1 w = (None, w1)"
      using none by (cases "get_cached_response ?key t1 w") simp
    have p: "posted w1 = posted w"
      using get_cached_response_posted [of ?key t1 w] g by simp
    have calls: "posted (snd (send_chat_message h post t1 t2 msgs sid mdl w)) = posted w @ [?req]"
      by (simp add: send_chat_message_def send_chat_message_try_def Let_def g p py_optional_def
          set_cached_response_def split: sum.split exn.split)
    have ok: "\<forall>resp d. post ?req = Inr resp \<and> json_body resp = Inr d \<and> status_code resp = 200 \<longrightarrow>
           fst (send_chat_message h post t1 t2 msgs sid mdl w) = Inr d \<and>
           snd (send_chat_message h post t1 t2 msgs sid mdl w)
             = set_cached_response ?key d t2
                 ((snd (get_cached_response ?key t1 w))\<lparr>posted := posted w @ [?req]\<rparr>)"
      by (simp add: send_chat_message_def send_chat_message_try_def Let_def g p py_optional_def)
    have err: "\<forall>resp d. post ?req = Inr resp \<and> json_body resp = Inr d \<and> status_code resp \<noteq> 200 \<longrightarrow>
           fst (send_chat_message h post t1 t2 msgs sid mdl w)
             = Inr (JObject
                      [(py_str ''error'',
                        JString (py_str ''API request failed: ''
                                 @ py_str (str_int (status_code resp))
                                 @ py_str '' - '' @ text_body resp)),
                       (py_str ''status'', JString (py_str ''error''))]) \<and>
           api_cache (snd (send_chat_message h post t1 t2 msgs sid mdl w))
             = api_cache (snd (get_cached_response ?key t1 w))"
      by (simp add: send_chat_message_def send_chat_message_try_def Let_def g p py_optional_def error_result_def)
    show "?P \<and> ?Q \<and> ?R"
      by (intro conjI calls ok err)
  qed
  from hit miss show ?thesis by blast
qed

theorem send_chat_message_cache_protocol_witness:
  "fst (get_cached_response (get_cache_key py_str [] None (py_str ''m1'')) 0
          \<lparr>api_cache = [],
           disk = \<lparr>files = Map.empty, denied = {}, dump_raises = (\<lambda>c p. None)\<rparr>,
           posted = []\<rparr>) = None \<and>
   status_code \<lparr>status_code = 200, text_body = py_str ''{}'', json_body = Inr (JObject [])\<rparr>
     = 200 \<and>
   fst (send_chat_message py_str
          (\<lambda>req. Inr \<lparr>status_code = 200, text_body = py_str ''{}'', json_body = Inr (JObject [])\<rparr>)
          0 5 [] None (py_str ''m1'')
          \<lparr>api_cache = [],
           disk = \<lparr>files = Map.empty, denied = {}, dump_raises = (\<lambda>c p. None)\<rparr>,
           posted = []\<rparr>) = Inr (JObject []) \<and>
   posted (snd (send_chat_message py_str
          (\<lambda>req. Inr \<lparr>status_code = 200, text_body = py_str ''{}'', json_body = Inr (JObject [])\<rparr>)
          0 5 [] None (py_str ''m1'')
          \<lparr>api_cache = [],
           disk = \<lparr>files = Map.empty, denied = {}, dump_raises = (\<lambda>c p. None)\<rparr>,
           posted = []\<rparr>))
     = [\<lparr>req_messages = [], req_session_id = None, req_model = py_str ''m1''\<rparr>]"
proof -
  let ?resp = "\<lparr>status_code = 200, text_body = py_str ''{}'', json_body = Inr (JObject [])\<rparr>"
  let ?post = "\<lambda>req :: chat_request. (Inr ?resp :: exn + http_response)"
  let ?w = "\<lparr>api_cache = [],
             disk = \<lparr>files = Map.empty, denied = {}, dump_raises = (\<lambda>c p. None)\<rparr>,
             posted = []\<rparr>"
  let ?req = "\<lparr>req_messages = [], req_session_id = None, req_model = py_str ''m1''\<rparr>"
  have miss: "fst (get_cached_response (get_cache_key py_str [] None (py_str ''m1'')) 0 ?w) = None"
    by (simp add: get_cached_response_def)
  have a: "?post ?req = Inr ?resp \<and> json_body ?resp = Inr (JObject []) \<and> status_code ?resp = 200"
    by simp
  from send_chat_message_cache_protocol [of ?w py_str "[]" None "py_str ''m1''" 0 ?post 5] miss
  have calls: "posted (snd (send_chat_message py_str ?post 0 5 [] None (py_str ''m1'') ?w))
                 = posted ?w @ [?req]"
    and ok: "\<forall>resp d. ?post ?req = Inr resp \<and> json_body resp = Inr d \<and> status_code resp = 200 \<longrightarrow>
           fst (send_chat_message py_str ?post 0 5 [] None (py_str ''m1'') ?w) = Inr d"
    by blast+
  from ok a have "fst (send_chat_message py_str ?post 0 5 [] None (py_str ''m1'') ?w)
      = Inr (JObject [])"
    by blast
  with miss calls show ?thesis by simp
qed

text \<open>
  C10, as stated, fails in "returns a dictionary": on an empty store, a response with
  status 200 whose body is the JSON array \<^verbatim>\<open>[]\<close> is returned as it is, a list.
\<close>

theorem send_chat_message_returns_list_counterexample:
  "fst (send_chat_message py_str
          (\<lambda>req. Inr \<lparr>status_code = 200, text_body = py_str ''[]'', json_body = Inr (JArray [])\<rparr>)
          0 0 [] None (py_str ''m1'')
          \<lparr>api_cache = [],
           disk = \<lparr>files = Map.empty, denied = {}, dump_raises = (\<lambda>c p. None)\<rparr>,
           posted = []\<rparr>) = Inr (JArray []) \<and>
   \<not> is_dict (JArray [])"
  by (simp add: send_chat_message_def send_chat_message_try_def get_cached_response_def
      py_optional_def Let_def is_dict_def)

text \<open>
  C10, amended. \<^verbatim>\<open>send_chat_message\<close> always returns a value and lets no
  \<^verbatim>\<open>Exception\<close> out: a \<^verbatim>\<open>RequestException\<close> raised in the body becomes the dictionary
  with the keys \<^verbatim>\<open>error\<close> ("Network error occurred: ...") and \<^verbatim>\<open>status\<close> = "error",
  and any other \<^verbatim>\<open>Exception\<close> the one with "An error occurred: ...". The value
  returned is a dictionary whenever the cached response for the key and the decoded
  body of the response are dictionaries.
\<close>

theorem send_chat_message_never_raises:
  "(\<exists>v. fst (send_chat_message h post t1 t2 msgs sid mdl w) = Inr v) \<and>
   (\<forall>e. fst (send_chat_message_try h post t1 t2 msgs sid mdl w) = Inl (RequestException e) \<longrightarrow>
        fst (send_chat_message h post t1 t2 msgs sid mdl w)
          = Inr (JObject [(py_str ''error'', JString (py_str ''Network error occurred: '' @ e)),
                          (py_str ''status'', JString (py_str ''error''))])) \<and>
   (\<forall>e. fst (send_chat_message_try h post t1 t2 msgs sid mdl w) = Inl (Exception e) \<longrightarrow>
        fst (send_chat_message h post t1 t2 msgs sid mdl w)
          = Inr (JObject [(py_str ''error'', JString (py_str ''An error occurred: '' @ e)),
                          (py_str ''status'', JString (py_str ''error''))])) \<and>
   ((\<forall>item. map_of (api_cache w) (get_cache_key h msgs sid mdl) = Some item \<longrightarrow>
             is_dict (response item)) \<and>
    (\<forall>resp d. post \<lparr>req_messages = msgs, req_session_id = sid, req_model = mdl\<rparr> = Inr resp \<and>
              json_body resp = Inr d \<longrightarrow> is_dict d) \<longrightarrow>
    (\<exists>d. fst (send_chat_message h post t1 t2 msgs sid mdl w) = Inr (JObject d)))"
proof -
  let ?key = "get_cache_key h msgs sid mdl"
  let ?req = "\<lparr>req_messages = msgs, req_session_id = sid, req_model = mdl\<rparr>"
  obtain r w' where t: "send_chat_message_try h post t1 t2 msgs sid mdl w = (r, w')"
    by (cases "send_chat_message_try h post t1 t2 msgs sid mdl w")
  have handled: "(\<exists>v. fst (send_chat_message h post t1 t2 msgs sid mdl w) = Inr v) \<and>
   (\<forall>e. fst (send_chat_message_try h post t1 t2 msgs sid mdl w) = Inl (RequestException e) \<longrightarrow>
        fst (send_chat_message h post t1 t2 msgs sid mdl w)
          = Inr (JObject [(py_str ''error'', JString (py_str ''Network error occurred: '' @ e)),
                          (py_str ''status'', JString (py_str ''error''))])) \<and>
   (\<forall>e. fst (send_chat_message_try h post t1 t2 msgs sid mdl w) = Inl (Exception e) \<longrightarrow>
        fst (send_chat_message h post t1 t2 msgs sid mdl w)
          = Inr (JObject [(py_str ''error'', JString (py_str ''An error occurred: '' @ e)),
                          (py_str ''status'', JString (py_str ''error''))]))"
  proof (cases r)
    case (Inl e)
    then show ?thesis
      by (cases e) (simp_all add: send_chat_message_def t error_result_def)
  next
    case (Inr d)
    then show ?thesis
      by (simp add: send_chat_message_def t)
  qed
  have dicts: "(\<forall>item. map_of (api_cache w) ?key = Some item \<longrightarrow> is_dict (response item)) \<and>
    (\<forall>resp d. post ?req = Inr resp \<and> json_body resp = Inr d \<longrightarrow> is_dict d) \<longrightarrow>
    (\<exists>d. fst (send_chat_message h post t1 t2 msgs sid mdl w) = Inr (JObject d))"
  proof
    assume typed: "(\<forall>item. map_of (api_cache w) ?key = Some item \<longrightarrow> is_dict (response item)) \<and>
      (\<forall>resp d. post ?req = Inr resp \<and> json_body resp = Inr d \<longrightarrow> is_dict d)"
    obtain g w1 where g: "get_cached_response ?key t1 w = (g, w1)"
      by (cases "get_cached_response ?key t1 w")
    show "\<exists>d. fst (send_chat_message h post t1 t2 msgs sid mdl w) = Inr (JObject d)"
    proof (cases "py_optional g = JNull")
      case False
      then obtain v where v: "g = Some v" "v \<noteq> JNull"
        by (cases g) (simp_all add: py_optional_def)
      from get_cached_response_Some [of ?key t1 w v w1] g v(1) typed have "is_dict v"
        by auto
      then obtain d where "v = JObject d" using is_dict_JObject by blast
      with v show ?thesis
        by (simp add: send_chat_message_def send_chat_message_try_def Let_def g py_optional_def)
    next
      case True
      show ?thesis
      proof (cases "post ?req")
        case (Inl e)
        with True show ?thesis
          by (cases e)
            (simp_all add: send_chat_message_def send_chat_message_try_def Let_def g
              error_result_def)
      next
        case (Inr resp)
        show ?thesis
        proof (cases "json_body resp")
          case (Inl e)
          with True Inr show ?thesis
            by (cases e)
              (simp_all add: send_chat_message_def send_chat_message_try_def Let_def g
                error_result_def)
        next
          case decoded: (Inr body)
          with typed Inr have "is_dict body" by blast
          then obtain d where "body = JObject d" using is_dict_JObject by blast
          with True Inr decoded show ?thesis
            by (simp add: send_chat_message_def send_chat_message_try_def Let_def g
                error_result_def)
        qed
      qed
    qed
  qed
  from handled dicts show ?thesis by blast
qed

theorem send_chat_message_never_raises_witness:
  "fst (send_chat_message_try py_str (\<lambda>req. Inl (RequestException (py_str ''timed out''))) 0 0
          [[(py_str ''role'', JString (py_str ''user'')),
            (py_str ''content'', JString (py_str ''hi''))]] None (py_str ''m1'')
          \<lparr>api_cache = [],
           disk = \<lparr>files = Map.empty, denied = {}, dump_raises = (\<lambda>c p. None)\<rparr>,
           posted = []\<rparr>)
     = Inl (RequestException (py_str ''timed out'')) \<and>
   fst (send_chat_message py_str (\<lambda>req. Inl (RequestException (py_str ''timed out''))) 0 0
          [[(py_str ''role'', JString (py_str ''user'')),
            (py_str ''content'', JString (py_str ''hi''))]] None (py_str ''m1'')
          \<lparr>api_cache = [],
           disk = \<lparr>files = Map.empty, denied = {}, dump_raises = (\<lambda>c p. None)\<rparr>,
           posted = []\<rparr>)
     = Inr (JObject [(py_str ''error'',
                      JString (py_str ''Network error occurred: '' @ py_str ''timed out'')),
                     (py_str ''status'', JString (py_str ''error''))])"
proof -
  let ?w = "\<lparr>api_cache = [],
             disk = \<lparr>files = Map.empty, denied = {}, dump_raises = (\<lambda>c p. None)\<rparr>,
             posted = []\<rparr>"
  let ?post = "\<lambda>req :: chat_request.
                 (Inl (RequestException (py_str ''timed out'')) :: exn + http_response)"
  let ?msgs = "[[(py_str ''role'', JString (py_str ''user'')),
                 (py_str ''content'', JString (py_str ''hi''))]]"
  have raised: "fst (send_chat_message_try py_str ?post 0 0 ?msgs None (py_str ''m1'') ?w)
                  = Inl (RequestException (py_str ''timed out''))"
    by (simp add: send_chat_message_try_def get_cached_response_def py_optional_def Let_def)
  from send_chat_message_never_raises [of py_str ?post 0 0 ?msgs None "py_str ''m1''" ?w] raised
  have "fst (send_chat_message py_str ?post 0 0 ?msgs None (py_str ''m1'') ?w)
          = Inr (JObject [(py_str ''error'',
                           JString (py_str ''Network error occurred: '' @ py_str ''timed out'')),
                          (py_str ''status'', JString (py_str ''error''))])"
    by blast
  with raised show ?thesis by simp
qed




end
